theory Spec2Isabelle
  imports Complex_Main
begin

section \<open>JavaScript values, commands and the world of a Lambda invocation\<close>

text \<open>
  A Lambda event is the value the runtime obtains from the JSON text of the invocation
  payload. The handlers are typed \<^verbatim>\<open>event: any\<close>, so an event is any JSON value:
  an object (the request descriptor of the specification), but also \<^verbatim>\<open>null\<close>, a
  string, a number, a boolean or an array. \<^verbatim>\<open>undefined\<close> is what reading a property
  that is absent yields. A JSON number is a finite double, hence a rational. An object is
  the list of its properties in order, looked up with \<open>map_of\<close>.
\<close>

datatype jsval =
    JUndefined
  | JNull
  | JBool bool
  | JNum rat
  | JStr string
  | JArr "jsval list"
  | JObj "(string \<times> jsval) list"

text \<open>
  The handlers raise nothing themselves; what can end a call early is
  \<^item> the \<^verbatim>\<open>TypeError\<close> of JavaScript when \<^verbatim>\<open>event.path\<close> is read from
    \<^verbatim>\<open>null\<close> or \<^verbatim>\<open>undefined\<close>, or when a template literal cannot turn a value
    into a string;
  \<^item> the rejection of \<^verbatim>\<open>dynamoDBDocumentClient.send\<close> (\<^verbatim>\<open>dynamo.updateItem\<close>),
    which the specification calls \<^verbatim>\<open>CounterStoreError\<close>;
  \<^item> the rejection of \<^verbatim>\<open>lambdaClient.send\<close> (\<^verbatim>\<open>lambda.invoke\<close>), called
    \<^verbatim>\<open>DownstreamInvocationError\<close>;
  \<^item> the \<^verbatim>\<open>SyntaxError\<close> of \<^verbatim>\<open>JSON.parse\<close> on the downstream payload, called
    \<^verbatim>\<open>MalformedDownstreamResponse\<close>.
  An SDK rejection carries the name of the service exception.
\<close>

datatype sdk_error = SdkError string

datatype failure =
    TypeError
  | CounterStoreError sdk_error
  | DownstreamInvocationError sdk_error
  | MalformedDownstreamResponse

text \<open>The parameter object of \<^verbatim>\<open>UpdateCommand\<close> and of \<^verbatim>\<open>updateItem\<close>.
  \<^verbatim>\<open>process.env.X\<close> is a string or \<^verbatim>\<open>undefined\<close>.\<close>

record update_command =
  TableName :: "string option"
  Key :: jsval
  UpdateExpression :: string
  ExpressionAttributeValues :: jsval

text \<open>The parameter object of \<^verbatim>\<open>InvokeCommand\<close> and of \<^verbatim>\<open>invoke\<close>. The payload is
  a byte sequence; text and bytes are both lists of \<^typ>\<open>char\<close>.\<close>

record invoke_command =
  FunctionName :: "string option"
  Payload :: string

text \<open>What a successful invocation resolves to. Every field is optional in the SDK's
  type of the response, \<^verbatim>\<open>Payload\<close> too; \<^verbatim>\<open>FunctionError\<close> is set when the
  invoked function itself threw (the invocation still resolves).\<close>

record invoke_output =
  StatusCode :: "nat option"
  FunctionError :: "string option"
  resp_Payload :: "string option"

record lambda_context =
  awsRequestId :: string

datatype metric_unit = Count

datatype log_item = LogEvent jsval | LogResponse invoke_output

text \<open>Every call a handler makes to something outside itself, in the order it makes it.\<close>

datatype effect =
    ConsoleLog string jsval
  | LoggerInfo string log_item
  | PutAnnotation string string
  | PutMetadata string jsval
  | DynamoSend update_command
  | AddMetric string metric_unit nat
  | PublishStoredMetrics
  | LambdaSend invoke_command

text \<open>
  The world of a call: the state of the services behind the two SDK clients, which only the
  clients change, and the trace of the calls made so far.
\<close>

record 's world =
  services :: 's
  trace :: "effect list"

text \<open>
  What a handler uses and this repository does not define: \<^verbatim>\<open>JSON.parse\<close> (\<open>None\<close> is
  the \<^verbatim>\<open>SyntaxError\<close>), \<^verbatim>\<open>JSON.stringify\<close>, the conversion of a value that is not
  a primitive string to a string (\<open>None\<close> is the \<^verbatim>\<open>TypeError\<close>), the two SDK clients
  and the two environment variables. A client takes the command and the state of the services
  and resolves or rejects, leaving a new state.
\<close>

record 's runtime =
  JSON_parse :: "string \<Rightarrow> jsval option"
  JSON_stringify :: "jsval \<Rightarrow> string"
  ToString :: "jsval \<Rightarrow> string option"
  dynamo_send :: "update_command \<Rightarrow> 's \<Rightarrow> (sdk_error + unit) \<times> 's"
  lambda_send :: "invoke_command \<Rightarrow> 's \<Rightarrow> (sdk_error + invoke_output) \<times> 's"
  HITS_TABLE_NAME :: "string option"
  DOWNSTREAM_FUNCTION_NAME :: "string option"

definition emit :: "effect \<Rightarrow> 's world \<Rightarrow> 's world" where
  "emit e w = w\<lparr>trace := trace w @ [e]\<rparr>"

text \<open>\<^verbatim>\<open>await client.send(command)\<close>: the call is recorded, the client runs on the
  current state of the services, and the handler goes on with the outcome.\<close>

definition await_dynamo ::
  "'s runtime \<Rightarrow> update_command \<Rightarrow> 's world \<Rightarrow> (sdk_error + unit) \<times> 's world" where
  "await_dynamo rt cmd w =
     (let (r, s) = dynamo_send rt cmd (services w)
      in (r, \<lparr>services = s, trace = trace w @ [DynamoSend cmd]\<rparr>))"

definition await_lambda ::
  "'s runtime \<Rightarrow> invoke_command \<Rightarrow> 's world \<Rightarrow> (sdk_error + invoke_output) \<times> 's world" where
  "await_lambda rt cmd w =
     (let (r, s) = lambda_send rt cmd (services w)
      in (r, \<lparr>services = s, trace = trace w @ [LambdaSend cmd]\<rparr>))"

text \<open>\<^verbatim>\<open>event.path\<close>: reading a property of \<^verbatim>\<open>null\<close> or \<^verbatim>\<open>undefined\<close> throws;
  an object yields the property or \<^verbatim>\<open>undefined\<close>; no other JSON value has a
  property of that name.\<close>

fun event_path :: "jsval \<Rightarrow> failure + jsval" where
  "event_path JUndefined = Inl TypeError"
| "event_path JNull = Inl TypeError"
| "event_path (JObj props) =
     Inr (case map_of props ''path'' of None \<Rightarrow> JUndefined | Some v \<Rightarrow> v)"
| "event_path _ = Inr JUndefined"

text \<open>The four instrumentation calls every handler starts with.\<close>

definition incoming :: "jsval \<Rightarrow> lambda_context \<Rightarrow> 's world \<Rightarrow> 's world" where
  "incoming event ctx w =
     emit (PutMetadata ''eventPayload'' event)
       (emit (PutAnnotation ''awsRequestId'' (awsRequestId ctx))
         (emit (LoggerInfo ''Incoming Request:'' (LogEvent event))
           (emit (ConsoleLog ''Incoming Request:'' event) w)))"

text \<open>\<^verbatim>\<open>Buffer.from(text)\<close> and \<^verbatim>\<open>Buffer.from(bytes).toString()\<close>: the UTF-8 bytes
  of a text and back.\<close>

definition Buffer_from :: "string \<Rightarrow> string" where
  "Buffer_from s = s"

definition Buffer_toString :: "string \<Rightarrow> string" where
  "Buffer_toString b = b"

section \<open>The hit counter, TypeScript (lambda/typescript/hitcounter.ts)\<close>

definition updateCommand :: "'s runtime \<Rightarrow> jsval \<Rightarrow> update_command" where
  "updateCommand rt path =
     \<lparr>TableName = HITS_TABLE_NAME rt,
      Key = JObj [(''path'', path)],
      UpdateExpression = ''ADD hits :incr'',
      ExpressionAttributeValues = JObj [('':incr'', JNum 1)]\<rparr>"

definition invokeCommand :: "'s runtime \<Rightarrow> jsval \<Rightarrow> invoke_command" where
  "invokeCommand rt event =
     \<lparr>FunctionName = DOWNSTREAM_FUNCTION_NAME rt,
      Payload = Buffer_from (JSON_stringify rt event)\<rparr>"

definition hitcounter_ts_lambdaHandler ::
  "'s runtime \<Rightarrow> jsval \<Rightarrow> lambda_context \<Rightarrow> 's world \<Rightarrow> (failure + jsval) \<times> 's world" where
  "hitcounter_ts_lambdaHandler rt event ctx w0 =
     (let w1 = incoming event ctx w0 in
      case event_path event of
        Inl err \<Rightarrow> (Inl err, w1)
      | Inr path \<Rightarrow>
          (case await_dynamo rt (updateCommand rt path) w1 of
             (Inl e, w2) \<Rightarrow> (Inl (CounterStoreError e), w2)
           | (Inr _, w2) \<Rightarrow>
               (let w3 = emit PublishStoredMetrics (emit (AddMetric ''hit'' Count 1) w2) in
                case await_lambda rt (invokeCommand rt event) w3 of
                  (Inl e, w4) \<Rightarrow> (Inl (DownstreamInvocationError e), w4)
                | (Inr resp, w4) \<Rightarrow>
                    (let w5 = emit (LoggerInfo ''Downstream Response:'' (LogResponse resp)) w4 in
                     case resp_Payload resp of
                       Some bytes \<Rightarrow>
                         (case JSON_parse rt (Buffer_toString bytes) of
                            None \<Rightarrow> (Inl MalformedDownstreamResponse, w5)
                          | Some v \<Rightarrow> (Inr v, w5))
                     | None \<Rightarrow> (Inr (JObj []), w5)))))"

section \<open>The hit counter, JavaScript (lambda/javascript)\<close>

text \<open>The same handler on version 2 of the SDK: the key and the increment are written as
  typed attribute values, the payload is the text itself, and the payload of the response
  goes to \<^verbatim>\<open>JSON.parse\<close> whatever it is. \<^verbatim>\<open>JSON.parse\<close> turns its argument into a
  string first, so an absent payload is parsed as the text \<^verbatim>\<open>undefined\<close>.\<close>

definition updateItem_params :: "'s runtime \<Rightarrow> jsval \<Rightarrow> update_command" where
  "updateItem_params rt path =
     \<lparr>TableName = HITS_TABLE_NAME rt,
      Key = JObj [(''path'', JObj [(''S'', path)])],
      UpdateExpression = ''ADD hits :incr'',
      ExpressionAttributeValues = JObj [('':incr'', JObj [(''N'', JStr ''1'')])]\<rparr>"

definition invoke_params :: "'s runtime \<Rightarrow> jsval \<Rightarrow> invoke_command" where
  "invoke_params rt event =
     \<lparr>FunctionName = DOWNSTREAM_FUNCTION_NAME rt,
      Payload = JSON_stringify rt event\<rparr>"

definition hitcounter_js_lambdaHandler ::
  "'s runtime \<Rightarrow> jsval \<Rightarrow> lambda_context \<Rightarrow> 's world \<Rightarrow> (failure + jsval) \<times> 's world" where
  "hitcounter_js_lambdaHandler rt event ctx w0 =
     (let w1 = incoming event ctx w0 in
      case event_path event of
        Inl err \<Rightarrow> (Inl err, w1)
      | Inr path \<Rightarrow>
          (case await_dynamo rt (updateItem_params rt path) w1 of
             (Inl e, w2) \<Rightarrow> (Inl (CounterStoreError e), w2)
           | (Inr _, w2) \<Rightarrow>
               (let w3 = emit PublishStoredMetrics (emit (AddMetric ''hit'' Count 1) w2) in
                case await_lambda rt (invoke_params rt event) w3 of
                  (Inl e, w4) \<Rightarrow> (Inl (DownstreamInvocationError e), w4)
                | (Inr resp, w4) \<Rightarrow>
                    (let w5 = emit (LoggerInfo ''Downstream Response:'' (LogResponse resp)) w4 in
                     case JSON_parse rt
                            (case resp_Payload resp of
                               None \<Rightarrow> ''undefined''
                             | Some bytes \<Rightarrow> Buffer_toString bytes) of
                       None \<Rightarrow> (Inl MalformedDownstreamResponse, w5)
                     | Some v \<Rightarrow> (Inr v, w5)))))"

section \<open>The hello function (lambda/javascript, lambda/typescript)\<close>

text \<open>A substitution of a template literal turns its value into a string: a string is
  itself, \<^verbatim>\<open>undefined\<close>, \<^verbatim>\<open>null\<close> and the booleans are their names, and every other
  value goes through the conversion of the runtime, which may throw.\<close>

definition substitution :: "'s runtime \<Rightarrow> jsval \<Rightarrow> string option" where
  "substitution rt v =
     (case v of
        JStr s \<Rightarrow> Some s
      | JUndefined \<Rightarrow> Some ''undefined''
      | JNull \<Rightarrow> Some ''null''
      | JBool b \<Rightarrow> Some (if b then ''true'' else ''false'')
      | _ \<Rightarrow> ToString rt v)"

text \<open>The text \<^verbatim>\<open>Hello, World! You've hit "s".\<close> followed by a line feed.\<close>

definition hello_body :: "string \<Rightarrow> string" where
  "hello_body s = ''Hello, World! You've hit '' @ [CHR 0x22] @ s @ [CHR 0x22, CHR ''.'', CHR 0x0A]"

definition hello_response :: "string \<Rightarrow> jsval" where
  "hello_response s =
     JObj [(''statusCode'', JNum 200),
           (''headers'', JObj [(''Content-Type'', JStr ''text/plain'')]),
           (''body'', JStr (hello_body s))]"

definition hello_js_lambdaHandler ::
  "'s runtime \<Rightarrow> jsval \<Rightarrow> lambda_context \<Rightarrow> 's world \<Rightarrow> (failure + jsval) \<times> 's world" where
  "hello_js_lambdaHandler rt event ctx w0 =
     (let w1 = incoming event ctx w0 in
      case event_path event of
        Inl err \<Rightarrow> (Inl err, w1)
      | Inr path \<Rightarrow>
          (case substitution rt path of
             None \<Rightarrow> (Inl TypeError, w1)
           | Some s \<Rightarrow> (Inr (hello_response s), w1)))"

definition hello_ts_lambdaHandler ::
  "'s runtime \<Rightarrow> jsval \<Rightarrow> lambda_context \<Rightarrow> 's world \<Rightarrow> (failure + jsval) \<times> 's world" where
  "hello_ts_lambdaHandler rt event ctx w0 =
     (let w1 = incoming event ctx w0 in
      case event_path event of
        Inl err \<Rightarrow> (Inl err, w1)
      | Inr path \<Rightarrow>
          (case substitution rt path of
             None \<Rightarrow> (Inl TypeError, w1)
           | Some s \<Rightarrow> (Inr (hello_response s), w1)))"

section \<open>Reading a trace\<close>

fun dynamo_sends :: "effect list \<Rightarrow> update_command list" where
  "dynamo_sends [] = []"
| "dynamo_sends (DynamoSend c # es) = c # dynamo_sends es"
| "dynamo_sends (_ # es) = dynamo_sends es"

fun lambda_sends :: "effect list \<Rightarrow> invoke_command list" where
  "lambda_sends [] = []"
| "lambda_sends (LambdaSend c # es) = c # lambda_sends es"
| "lambda_sends (_ # es) = lambda_sends es"

text \<open>A sequence of calls of a handler, each with its event and its context, one after the
  other, each call starting in the world the one before left, whatever its outcome.\<close>

fun serve ::
  "(jsval \<Rightarrow> lambda_context \<Rightarrow> 's world \<Rightarrow> (failure + jsval) \<times> 's world) \<Rightarrow>
   (jsval \<times> lambda_context) list \<Rightarrow> 's world \<Rightarrow> 's world" where
  "serve h [] w = w"
| "serve h ((event, ctx) # calls) w = serve h calls (snd (h event ctx w))"

section \<open>A counter store to count in\<close>

text \<open>
  The handlers only send a command; what the count becomes is the store's doing. For the
  properties that speak of the stored count, this is the table of \<^verbatim>\<open>lib/hitcounter.ts\<close>
  (partition key \<^verbatim>\<open>path\<close>, a string) behind either client, executing the one update
  the handlers send: \<^verbatim>\<open>ADD hits :incr\<close> adds the number to the attribute \<^verbatim>\<open>hits\<close>
  of the item with the given key and creates the item, counting from 0, when there is none.
  A key that is not a non-empty string, another expression, another table name or a
  malformed number is rejected and changes nothing. The document client takes plain values,
  the low-level client typed attribute values, where a number is its decimal text.
\<close>

record 'd cloud =
  Hits :: "string \<rightharpoonup> rat"
  downstream :: 'd

definition hits_of :: "(string \<rightharpoonup> rat) \<Rightarrow> string \<Rightarrow> rat" where
  "hits_of t p = (case t p of None \<Rightarrow> 0 | Some n \<Rightarrow> n)"

datatype client = DocumentClient | DynamoDB

definition only_property :: "string \<Rightarrow> jsval \<Rightarrow> jsval option" where
  "only_property k v =
     (case v of
        JObj [(k', x)] \<Rightarrow> if k' = k then Some x else None
      | _ \<Rightarrow> None)"

fun digits_value :: "nat \<Rightarrow> string \<Rightarrow> nat option" where
  "digits_value acc [] = Some acc"
| "digits_value acc (c # cs) =
     (if (48::nat) \<le> of_char c \<and> of_char c \<le> (57::nat)
      then digits_value (10 * acc + (of_char c - 48)) cs
      else None)"

definition plain_value :: "client \<Rightarrow> jsval \<Rightarrow> jsval option" where
  "plain_value cl v =
     (case cl of
        DocumentClient \<Rightarrow> Some v
      | DynamoDB \<Rightarrow>
          (case v of
             JObj [(t, JStr s)] \<Rightarrow>
               if t = ''S'' then Some (JStr s)
               else if t = ''N'' \<and> s \<noteq> [] then map_option (\<lambda>n. JNum (of_nat n)) (digits_value 0 s)
               else None
           | _ \<Rightarrow> None))"

definition key_of :: "client \<Rightarrow> jsval \<Rightarrow> string option" where
  "key_of cl key =
     (case Option.bind (only_property ''path'' key) (plain_value cl) of
        Some (JStr p) \<Rightarrow> if p = [] then None else Some p
      | _ \<Rightarrow> None)"

definition incr_of :: "client \<Rightarrow> jsval \<Rightarrow> rat option" where
  "incr_of cl vals =
     (case Option.bind (only_property '':incr'' vals) (plain_value cl) of
        Some (JNum n) \<Rightarrow> Some n
      | _ \<Rightarrow> None)"

definition counter_store ::
  "client \<Rightarrow> string \<Rightarrow> update_command \<Rightarrow> 'd cloud \<Rightarrow> (sdk_error + unit) \<times> 'd cloud" where
  "counter_store cl name cmd s =
     (if TableName cmd \<noteq> Some name then (Inl (SdkError ''ResourceNotFoundException''), s)
      else if UpdateExpression cmd \<noteq> ''ADD hits :incr'' then (Inl (SdkError ''ValidationException''), s)
      else case (key_of cl (Key cmd), incr_of cl (ExpressionAttributeValues cmd)) of
             (Some p, Some n) \<Rightarrow> (Inr (), s\<lparr>Hits := (Hits s)(p \<mapsto> hits_of (Hits s) p + n)\<rparr>)
           | _ \<Rightarrow> (Inl (SdkError ''ValidationException''), s))"

section \<open>Either source\<close>

text \<open>The repository holds each function twice; a property that holds for both is stated
  once, for either source.\<close>

datatype handler_source = TypeScript | JavaScript

definition hitcounter_lambdaHandler ::
  "handler_source \<Rightarrow> 's runtime \<Rightarrow> jsval \<Rightarrow> lambda_context \<Rightarrow> 's world
     \<Rightarrow> (failure + jsval) \<times> 's world" where
  "hitcounter_lambdaHandler src =
     (case src of
        TypeScript \<Rightarrow> hitcounter_ts_lambdaHandler
      | JavaScript \<Rightarrow> hitcounter_js_lambdaHandler)"

definition hello_lambdaHandler ::
  "handler_source \<Rightarrow> 's runtime \<Rightarrow> jsval \<Rightarrow> lambda_context \<Rightarrow> 's world
     \<Rightarrow> (failure + jsval) \<times> 's world" where
  "hello_lambdaHandler src =
     (case src of
        TypeScript \<Rightarrow> hello_ts_lambdaHandler
      | JavaScript \<Rightarrow> hello_js_lambdaHandler)"

definition store_command :: "handler_source \<Rightarrow> 's runtime \<Rightarrow> jsval \<Rightarrow> update_command" where
  "store_command src rt path =
     (case src of
        TypeScript \<Rightarrow> updateCommand rt path
      | JavaScript \<Rightarrow> updateItem_params rt path)"

definition downstream_command :: "handler_source \<Rightarrow> 's runtime \<Rightarrow> jsval \<Rightarrow> invoke_command" where
  "downstream_command src rt event =
     (case src of
        TypeScript \<Rightarrow> invokeCommand rt event
      | JavaScript \<Rightarrow> invoke_params rt event)"

definition sdk_client :: "handler_source \<Rightarrow> client" where
  "sdk_client src = (case src of TypeScript \<Rightarrow> DocumentClient | JavaScript \<Rightarrow> DynamoDB)"

text \<open>The trace of the four instrumentation calls.\<close>

definition instrumentation :: "jsval \<Rightarrow> lambda_context \<Rightarrow> effect list" where
  "instrumentation event ctx =
     [ConsoleLog ''Incoming Request:'' event,
      LoggerInfo ''Incoming Request:'' (LogEvent event),
      PutAnnotation ''awsRequestId'' (awsRequestId ctx),
      PutMetadata ''eventPayload'' event]"

section \<open>Concrete collaborators for the examples\<close>

text \<open>The request \<^verbatim>\<open>{path: "/foo"}\<close>, the response payload of the specification's
  round trip as a value and as JSON text, and \<^verbatim>\<open>JSON.parse\<close> and
  \<^verbatim>\<open>JSON.stringify\<close> as far as the examples use them. The names of the table and of
  the downstream function are those of \<^verbatim>\<open>lib/hitcounter-stack.ts\<close>.\<close>

definition foo_request :: jsval where
  "foo_request = JObj [(''path'', JStr ''/foo'')]"

definition foo_request_text :: string where
  \<open>foo_request_text = ''{"path":"/foo"}''\<close>

definition foo_payload :: jsval where
  "foo_payload = JObj [(''statusCode'', JNum 200), (''body'', JStr (hello_body ''/foo''))]"

definition foo_payload_text :: string where
  \<open>foo_payload_text =
     ''{"statusCode":200,"body":"Hello, World! You've hit '' @ [CHR 0x5C, CHR 0x22] @ ''/foo''
       @ [CHR 0x5C, CHR 0x22] @ ''.'' @ [CHR 0x5C] @ ''n"}''\<close>

definition example_parse :: "string \<Rightarrow> jsval option" where
  "example_parse text =
     (if text = foo_payload_text then Some foo_payload
      else if text = foo_request_text then Some foo_request
      else if text = ''1'' then Some (JNum 1)
      else if text = ''0'' then Some (JNum 0)
      else None)"

definition example_runtime ::
  "(update_command \<Rightarrow> 's \<Rightarrow> (sdk_error + unit) \<times> 's) \<Rightarrow>
   (invoke_command \<Rightarrow> 's \<Rightarrow> (sdk_error + invoke_output) \<times> 's) \<Rightarrow> 's runtime" where
  "example_runtime store invoker =
     \<lparr>JSON_parse = example_parse,
      JSON_stringify = (\<lambda>v. if v = foo_request then foo_request_text else ''null''),
      ToString = (\<lambda>v. None),
      dynamo_send = store,
      lambda_send = invoker,
      HITS_TABLE_NAME = Some ''Hits'',
      DOWNSTREAM_FUNCTION_NAME = Some ''hello-hitcounter-function''\<rparr>"

definition throttled :: "update_command \<Rightarrow> 's \<Rightarrow> (sdk_error + unit) \<times> 's" where
  "throttled cmd s = (Inl (SdkError ''ProvisionedThroughputExceededException''), s)"

definition unreachable :: "invoke_command \<Rightarrow> 's \<Rightarrow> (sdk_error + invoke_output) \<times> 's" where
  "unreachable cmd s = (Inl (SdkError ''ServiceException''), s)"

definition replies :: "string option \<Rightarrow> invoke_command \<Rightarrow> 's \<Rightarrow> (sdk_error + invoke_output) \<times> 's" where
  "replies payload cmd s =
     (Inr \<lparr>StatusCode = Some 200, FunctionError = None, resp_Payload = payload\<rparr>, s)"

text \<open>A downstream function that looks into the table and answers with the count it finds
  for \<^verbatim>\<open>/foo\<close>.\<close>

definition reports_count :: "invoke_command \<Rightarrow> 'd cloud \<Rightarrow> (sdk_error + invoke_output) \<times> 'd cloud" where
  "reports_count cmd s =
     (Inr \<lparr>StatusCode = Some 200, FunctionError = None,
           resp_Payload = Some (if hits_of (Hits s) ''/foo'' = 1 then ''1'' else ''0'')\<rparr>, s)"

definition request_1 :: lambda_context where
  "request_1 = \<lparr>awsRequestId = ''request-1''\<rparr>"

definition empty_cloud :: "unit cloud" where
  "empty_cloud = \<lparr>Hits = Map.empty, downstream = ()\<rparr>"

definition fresh :: "'s \<Rightarrow> 's world" where
  "fresh s = \<lparr>services = s, trace = []\<rparr>"

text \<open>The deployed pair as far as the examples go: the table \<^verbatim>\<open>Hits\<close> behind the
  client of the given source, and a downstream function that answers with the given payload.\<close>

definition healthy :: "handler_source \<Rightarrow> string option \<Rightarrow> unit cloud runtime" where
  "healthy src payload = example_runtime (counter_store (sdk_client src) ''Hits'') (replies payload)"

text \<open>The same with a downstream function that cannot be reached, and with one that
  reports the count it finds.\<close>

definition cut_off :: "handler_source \<Rightarrow> unit cloud runtime" where
  "cut_off src = example_runtime (counter_store (sdk_client src) ''Hits'') unreachable"

definition observed :: "unit cloud runtime" where
  "observed = example_runtime (counter_store (sdk_client TypeScript) ''Hits'') reports_count"

section \<open>What a call does, by the outcomes of the two clients\<close>

lemma dynamo_sends_append: "dynamo_sends (xs @ ys) = dynamo_sends xs @ dynamo_sends ys"
  by (induction xs rule: dynamo_sends.induct) simp_all

lemma lambda_sends_append: "lambda_sends (xs @ ys) = lambda_sends xs @ lambda_sends ys"
  by (induction xs rule: lambda_sends.induct) simp_all

lemma sends_instrumentation:
  "dynamo_sends (instrumentation event ctx) = []" "lambda_sends (instrumentation event ctx) = []"
  by (simp_all add: instrumentation_def)

lemma incoming_eq:
  "incoming event ctx w = \<lparr>services = services w, trace = trace w @ instrumentation event ctx\<rparr>"
  by (simp add: incoming_def emit_def instrumentation_def)

lemma null_event:
  assumes "event_path event = Inl err"
  shows "hitcounter_lambdaHandler src rt event ctx w =
           (Inl err, \<lparr>services = services w, trace = trace w @ instrumentation event ctx\<rparr>)"
  using assms
  by (cases src)
     (simp_all add: hitcounter_lambdaHandler_def hitcounter_ts_lambdaHandler_def
        hitcounter_js_lambdaHandler_def incoming_eq)

lemma store_rejects:
  assumes "event_path event = Inr p"
    and "dynamo_send rt (store_command src rt p) (services w) = (Inl e, s1)"
  shows "hitcounter_lambdaHandler src rt event ctx w =
           (Inl (CounterStoreError e),
            \<lparr>services = s1,
             trace = trace w @ instrumentation event ctx @ [DynamoSend (store_command src rt p)]\<rparr>)"
  using assms
  by (cases src)
     (simp_all add: hitcounter_lambdaHandler_def store_command_def hitcounter_ts_lambdaHandler_def
        hitcounter_js_lambdaHandler_def incoming_eq await_dynamo_def)

lemma invoke_rejects:
  assumes "event_path event = Inr p"
    and "dynamo_send rt (store_command src rt p) (services w) = (Inr u, s1)"
    and "lambda_send rt (downstream_command src rt event) s1 = (Inl e, s2)"
  shows "hitcounter_lambdaHandler src rt event ctx w =
           (Inl (DownstreamInvocationError e),
            \<lparr>services = s2,
             trace = trace w @ instrumentation event ctx @
               [DynamoSend (store_command src rt p), AddMetric ''hit'' Count 1,
                PublishStoredMetrics, LambdaSend (downstream_command src rt event)]\<rparr>)"
  using assms
  by (cases src)
     (simp_all add: hitcounter_lambdaHandler_def store_command_def downstream_command_def
        hitcounter_ts_lambdaHandler_def hitcounter_js_lambdaHandler_def incoming_eq
        await_dynamo_def await_lambda_def emit_def)

lemma invoke_resolves:
  assumes "event_path event = Inr p"
    and "dynamo_send rt (store_command src rt p) (services w) = (Inr u, s1)"
    and "lambda_send rt (downstream_command src rt event) s1 = (Inr resp, s2)"
  shows "hitcounter_lambdaHandler src rt event ctx w =
           ((case resp_Payload resp of
               Some bytes \<Rightarrow>
                 (case JSON_parse rt bytes of
                    None \<Rightarrow> Inl MalformedDownstreamResponse
                  | Some v \<Rightarrow> Inr v)
             | None \<Rightarrow>
                 (case src of
                    TypeScript \<Rightarrow> Inr (JObj [])
                  | JavaScript \<Rightarrow>
                      (case JSON_parse rt ''undefined'' of
                         None \<Rightarrow> Inl MalformedDownstreamResponse
                       | Some v \<Rightarrow> Inr v))),
            \<lparr>services = s2,
             trace = trace w @ instrumentation event ctx @
               [DynamoSend (store_command src rt p), AddMetric ''hit'' Count 1,
                PublishStoredMetrics, LambdaSend (downstream_command src rt event),
                LoggerInfo ''Downstream Response:'' (LogResponse resp)]\<rparr>)"
  using assms
  by (cases src)
     (simp_all add: hitcounter_lambdaHandler_def store_command_def downstream_command_def
        hitcounter_ts_lambdaHandler_def hitcounter_js_lambdaHandler_def incoming_eq
        await_dynamo_def await_lambda_def emit_def Buffer_toString_def split: option.splits)

lemma store_command_lambda_send [simp]:
  "store_command src (rt\<lparr>lambda_send := f\<rparr>) p = store_command src rt p"
  by (cases src) (simp_all add: store_command_def updateCommand_def updateItem_params_def)

lemma counter_store_command:
  assumes "HITS_TABLE_NAME rt = Some name"
  shows "counter_store (sdk_client src) name (store_command src rt p) s =
           (case p of
              JStr P \<Rightarrow>
                if P = [] then (Inl (SdkError ''ValidationException''), s)
                else (Inr (), s\<lparr>Hits := (Hits s)(P \<mapsto> hits_of (Hits s) P + 1)\<rparr>)
            | _ \<Rightarrow> (Inl (SdkError ''ValidationException''), s))"
  using assms
  by (cases src; cases p)
     (simp_all add: counter_store_def sdk_client_def store_command_def updateCommand_def
        updateItem_params_def key_of_def incr_of_def only_property_def plain_value_def)

lemma foo_path: "event_path foo_request = Inr (JStr ''/foo'')"
  by (simp add: foo_request_def)

lemma example_store_counts:
  "dynamo_send (example_runtime (counter_store (sdk_client src) ''Hits'') invoker)
     (store_command src (example_runtime (counter_store (sdk_client src) ''Hits'') invoker)
        (JStr ''/foo'')) s
   = (Inr (), s\<lparr>Hits := (Hits s)(''/foo'' \<mapsto> hits_of (Hits s) ''/foo'' + 1)\<rparr>)"
proof -
  have "HITS_TABLE_NAME (example_runtime (counter_store (sdk_client src) ''Hits'') invoker)
          = Some ''Hits''"
    by (simp add: example_runtime_def)
  from counter_store_command [OF this, of src "JStr ''/foo''" s]
  show ?thesis by (simp add: example_runtime_def)
qed

lemma healthy_store:
  "dynamo_send (healthy src payload) (store_command src (healthy src payload) (JStr ''/foo'')) s
   = (Inr (), s\<lparr>Hits := (Hits s)(''/foo'' \<mapsto> hits_of (Hits s) ''/foo'' + 1)\<rparr>)"
  unfolding healthy_def by (rule example_store_counts)

lemma healthy_invoker:
  "lambda_send (healthy src payload) cmd s =
     (Inr \<lparr>StatusCode = Some 200, FunctionError = None, resp_Payload = payload\<rparr>, s)"
  by (simp add: healthy_def example_runtime_def replies_def)

lemma healthy_parse:
  "JSON_parse (healthy src payload) foo_payload_text = Some foo_payload"
  "JSON_parse (healthy src payload) foo_request_text = Some foo_request"
  "JSON_parse (healthy src payload) ''<html>'' = None"
  "JSON_parse (healthy src payload) ''undefined'' = None"
  by (simp_all add: healthy_def example_runtime_def example_parse_def foo_payload_text_def
      foo_request_text_def)

text \<open>The three ways a call goes once the path was read.\<close>

lemma handler_cases:
  assumes "event_path event = Inr p"
  obtains
    (store_rejected) e s1 where
      "dynamo_send rt (store_command src rt p) (services w) = (Inl e, s1)"
      "hitcounter_lambdaHandler src rt event ctx w =
         (Inl (CounterStoreError e),
          \<lparr>services = s1,
           trace = trace w @ instrumentation event ctx @ [DynamoSend (store_command src rt p)]\<rparr>)"
  | (invoke_rejected) u s1 e s2 where
      "dynamo_send rt (store_command src rt p) (services w) = (Inr u, s1)"
      "lambda_send rt (downstream_command src rt event) s1 = (Inl e, s2)"
      "hitcounter_lambdaHandler src rt event ctx w =
         (Inl (DownstreamInvocationError e),
          \<lparr>services = s2,
           trace = trace w @ instrumentation event ctx @
             [DynamoSend (store_command src rt p), AddMetric ''hit'' Count 1,
              PublishStoredMetrics, LambdaSend (downstream_command src rt event)]\<rparr>)"
  | (invoke_resolved) u s1 resp s2 where
      "dynamo_send rt (store_command src rt p) (services w) = (Inr u, s1)"
      "lambda_send rt (downstream_command src rt event) s1 = (Inr resp, s2)"
      "hitcounter_lambdaHandler src rt event ctx w =
         ((case resp_Payload resp of
             Some bytes \<Rightarrow>
               (case JSON_parse rt bytes of
                  None \<Rightarrow> Inl MalformedDownstreamResponse
                | Some v \<Rightarrow> Inr v)
           | None \<Rightarrow>
               (case src of
                  TypeScript \<Rightarrow> Inr (JObj [])
                | JavaScript \<Rightarrow>
                    (case JSON_parse rt ''undefined'' of
                       None \<Rightarrow> Inl MalformedDownstreamResponse
                     | Some v \<Rightarrow> Inr v))),
          \<lparr>services = s2,
           trace = trace w @ instrumentation event ctx @
             [DynamoSend (store_command src rt p), AddMetric ''hit'' Count 1,
              PublishStoredMetrics, LambdaSend (downstream_command src rt event),
              LoggerInfo ''Downstream Response:'' (LogResponse resp)]\<rparr>)"
proof -
  obtain r1 s1 where store: "dynamo_send rt (store_command src rt p) (services w) = (r1, s1)"
    by (cases "dynamo_send rt (store_command src rt p) (services w)")
  obtain r2 s2 where invoke: "lambda_send rt (downstream_command src rt event) s1 = (r2, s2)"
    by (cases "lambda_send rt (downstream_command src rt event) s1")
  show thesis
  proof (cases r1)
    case (Inl e)
    from store_rejected [OF store [unfolded Inl] store_rejects [OF assms store [unfolded Inl]]]
    show thesis .
  next
    case r1: (Inr u)
    show thesis
    proof (cases r2)
      case (Inl e)
      from invoke_rejected [OF store [unfolded r1] invoke [unfolded Inl]
          invoke_rejects [OF assms store [unfolded r1] invoke [unfolded Inl]]]
      show thesis .
    next
      case (Inr resp)
      from invoke_resolved [OF store [unfolded r1] invoke [unfolded Inr]
          invoke_resolves [OF assms store [unfolded r1] invoke [unfolded Inr]]]
      show thesis .
    qed
  qed
qed


lemma store_command_eq:
  "store_command src rt p =
     \<lparr>TableName = HITS_TABLE_NAME rt,
      Key = (case src of
               TypeScript \<Rightarrow> JObj [(''path'', p)]
             | JavaScript \<Rightarrow> JObj [(''path'', JObj [(''S'', p)])]),
      UpdateExpression = ''ADD hits :incr'',
      ExpressionAttributeValues =
        (case src of
           TypeScript \<Rightarrow> JObj [('':incr'', JNum 1)]
         | JavaScript \<Rightarrow> JObj [('':incr'', JObj [(''N'', JStr ''1'')])])\<rparr>"
  by (cases src) (simp_all add: store_command_def updateCommand_def updateItem_params_def)

lemma downstream_command_eq:
  "downstream_command src rt event =
     \<lparr>FunctionName = DOWNSTREAM_FUNCTION_NAME rt, Payload = JSON_stringify rt event\<rparr>"
  by (cases src)
     (simp_all add: downstream_command_def invokeCommand_def invoke_params_def Buffer_from_def)

lemma store_command_incr:
  "incr_of (sdk_client src) (ExpressionAttributeValues (store_command src rt p)) = Some 1"
  by (cases src)
     (simp_all add: store_command_def updateCommand_def updateItem_params_def sdk_client_def
        incr_of_def only_property_def plain_value_def)

lemma new_dynamo_sends:
  assumes "event_path event = Inr p"
  shows "dynamo_sends (trace (snd (hitcounter_lambdaHandler src rt event ctx w))) =
           dynamo_sends (trace w) @ [store_command src rt p]"
  by (rule handler_cases [OF assms, where rt = rt and src = src and w = w and ctx = ctx])
     (simp_all add: dynamo_sends_append sends_instrumentation)


lemma services_after_call:
  assumes "event_path event = Inr p"
  shows "services (snd (hitcounter_lambdaHandler src rt event ctx w)) =
           (case dynamo_send rt (store_command src rt p) (services w) of
              (Inl e, s1) \<Rightarrow> s1
            | (Inr u, s1) \<Rightarrow> snd (lambda_send rt (downstream_command src rt event) s1))"
  by (rule handler_cases [OF assms, where rt = rt and src = src and w = w and ctx = ctx])
     simp_all

section \<open>Failures\<close>

text \<open>
  C1. If the increment of the counter store fails, the call fails with
  \<^verbatim>\<open>CounterStoreError\<close> and the downstream function is never invoked: the trace gains
  no invocation, the services are left as the store left them, and the call is the same
  whatever the Lambda client would have done.
\<close>

theorem counter_failure_is_fatal:
  assumes "event_path event = Inr p"
    and "dynamo_send rt (store_command src rt p) (services w) = (Inl e, s1)"
  shows "fst (hitcounter_lambdaHandler src rt event ctx w) = Inl (CounterStoreError e)
     \<and> lambda_sends (trace (snd (hitcounter_lambdaHandler src rt event ctx w))) =
           lambda_sends (trace w)
     \<and> services (snd (hitcounter_lambdaHandler src rt event ctx w)) = s1
     \<and> hitcounter_lambdaHandler src (rt\<lparr>lambda_send := other\<rparr>) event ctx w =
           hitcounter_lambdaHandler src rt event ctx w"
proof -
  note run = store_rejects [OF assms, of ctx]
  have "dynamo_send (rt\<lparr>lambda_send := other\<rparr>)
          (store_command src (rt\<lparr>lambda_send := other\<rparr>) p) (services w) = (Inl e, s1)"
    using assms(2) by simp
  from store_rejects [OF assms(1) this, of ctx]
  have "hitcounter_lambdaHandler src (rt\<lparr>lambda_send := other\<rparr>) event ctx w =
          hitcounter_lambdaHandler src rt event ctx w"
    by (simp add: run)
  then show ?thesis
    by (simp add: run lambda_sends_append sends_instrumentation)
qed

text \<open>C1, on the request \<^verbatim>\<open>{path: "/foo"}\<close> with a throttled table.\<close>

theorem counter_failure_is_fatal_witness:
  "event_path foo_request = Inr (JStr ''/foo'')
   \<and> dynamo_send (example_runtime throttled (replies (Some foo_payload_text)))
        (store_command TypeScript (example_runtime throttled (replies (Some foo_payload_text)))
           (JStr ''/foo''))
        (services (fresh ())) = (Inl (SdkError ''ProvisionedThroughputExceededException''), ())
   \<and> fst (hitcounter_lambdaHandler TypeScript
            (example_runtime throttled (replies (Some foo_payload_text)))
            foo_request request_1 (fresh ()))
       = Inl (CounterStoreError (SdkError ''ProvisionedThroughputExceededException''))
   \<and> lambda_sends (trace (snd (hitcounter_lambdaHandler TypeScript
            (example_runtime throttled (replies (Some foo_payload_text)))
            foo_request request_1 (fresh ())))) = []"
proof -
  have path: "event_path foo_request = Inr (JStr ''/foo'')"
    by (simp add: foo_request_def)
  have store: "dynamo_send (example_runtime throttled (replies (Some foo_payload_text)))
        (store_command TypeScript (example_runtime throttled (replies (Some foo_payload_text)))
           (JStr ''/foo''))
        (services (fresh ())) = (Inl (SdkError ''ProvisionedThroughputExceededException''), ())"
    by (simp add: example_runtime_def throttled_def fresh_def)
  from counter_failure_is_fatal [OF path store, of request_1] path store
  show ?thesis by (simp add: fresh_def)
qed

text \<open>
  C3, as the specification has it, asks for \<^verbatim>\<open>MalformedDownstreamResponse\<close> also when
  the payload is absent. The TypeScript handler tests \<^verbatim>\<open>resp.Payload\<close> and returns
  the empty object \<^verbatim>\<open>{}\<close> when there is none.
\<close>

theorem absent_payload_counterexample:
  "fst (hitcounter_ts_lambdaHandler (healthy TypeScript None) foo_request request_1
          (fresh empty_cloud)) = Inr (JObj [])
   \<and> fst (hitcounter_ts_lambdaHandler (healthy TypeScript None) foo_request request_1
          (fresh empty_cloud)) \<noteq> Inl MalformedDownstreamResponse"
  using invoke_resolves [where ctx = request_1 and w = "fresh empty_cloud" and src = TypeScript,
      OF foo_path healthy_store [of TypeScript None] healthy_invoker [of TypeScript None]]
  by (simp add: hitcounter_lambdaHandler_def)

text \<open>
  C3, amended. When the invocation resolves with a payload that \<^verbatim>\<open>JSON.parse\<close> rejects,
  the call fails with \<^verbatim>\<open>MalformedDownstreamResponse\<close>. When it resolves without a
  payload, the TypeScript handler returns the empty object, and the JavaScript handler parses
  the text \<^verbatim>\<open>undefined\<close> and fails as \<^verbatim>\<open>JSON.parse\<close> rejects it.
\<close>

theorem malformed_payload_is_fatal:
  assumes "event_path event = Inr p"
    and "dynamo_send rt (store_command src rt p) (services w) = (Inr u, s1)"
    and "lambda_send rt (downstream_command src rt event) s1 = (Inr resp, s2)"
  shows "(\<forall>bytes. resp_Payload resp = Some bytes \<and> JSON_parse rt bytes = None \<longrightarrow>
            fst (hitcounter_lambdaHandler src rt event ctx w) = Inl MalformedDownstreamResponse)
     \<and> (resp_Payload resp = None \<and> src = TypeScript \<longrightarrow>
            fst (hitcounter_lambdaHandler src rt event ctx w) = Inr (JObj []))
     \<and> (resp_Payload resp = None \<and> src = JavaScript \<and> JSON_parse rt ''undefined'' = None \<longrightarrow>
            fst (hitcounter_lambdaHandler src rt event ctx w) = Inl MalformedDownstreamResponse)"
  using invoke_resolves [OF assms, of ctx] by (cases src) auto

text \<open>C3, amended, on a payload that is not JSON (TypeScript) and on no payload
  (JavaScript).\<close>

theorem malformed_payload_is_fatal_witness:
  "fst (hitcounter_lambdaHandler TypeScript (healthy TypeScript (Some ''<html>''))
          foo_request request_1 (fresh empty_cloud)) = Inl MalformedDownstreamResponse
   \<and> fst (hitcounter_lambdaHandler JavaScript (healthy JavaScript None)
          foo_request request_1 (fresh empty_cloud)) = Inl MalformedDownstreamResponse"
  using
    malformed_payload_is_fatal [where ctx = request_1 and w = "fresh empty_cloud",
      OF foo_path healthy_store [of TypeScript "Some ''<html>''"]
         healthy_invoker [of TypeScript "Some ''<html>''"]]
    malformed_payload_is_fatal [where ctx = request_1 and w = "fresh empty_cloud",
      OF foo_path healthy_store [of JavaScript None] healthy_invoker [of JavaScript None]]
  by (simp add: healthy_parse)

section \<open>The round trip\<close>

text \<open>
  C4. When the increment and the invocation both succeed, the call returns what
  \<^verbatim>\<open>JSON.parse\<close> makes of the payload, unchanged.
\<close>

theorem downstream_payload_returned_unchanged:
  assumes "event_path event = Inr p"
    and "dynamo_send rt (store_command src rt p) (services w) = (Inr u, s1)"
    and "lambda_send rt (downstream_command src rt event) s1 = (Inr resp, s2)"
    and "resp_Payload resp = Some bytes"
    and "JSON_parse rt bytes = Some v"
  shows "fst (hitcounter_lambdaHandler src rt event ctx w) = Inr v"
  by (simp add: invoke_resolves [OF assms(1-3)] assms(4,5))


text \<open>C4, on the payload of the specification: \<^verbatim>\<open>handle({path: "/foo"})\<close> returns
  \<^verbatim>\<open>{statusCode: 200, body: "Hello, World! You've hit \"/foo\".\n"}\<close>.\<close>

theorem downstream_payload_returned_unchanged_witness:
  "fst (hitcounter_lambdaHandler TypeScript (healthy TypeScript (Some foo_payload_text))
          foo_request request_1 (fresh empty_cloud))
     = Inr (JObj [(''statusCode'', JNum 200), (''body'', JStr (hello_body ''/foo''))])
   \<and> fst (hitcounter_lambdaHandler JavaScript (healthy JavaScript (Some foo_payload_text))
          foo_request request_1 (fresh empty_cloud))
     = Inr (JObj [(''statusCode'', JNum 200), (''body'', JStr (hello_body ''/foo''))])"
  using
    downstream_payload_returned_unchanged [where ctx = request_1 and w = "fresh empty_cloud",
      OF foo_path healthy_store [of TypeScript "Some foo_payload_text"]
         healthy_invoker [of TypeScript "Some foo_payload_text"] _ healthy_parse(1)]
    downstream_payload_returned_unchanged [where ctx = request_1 and w = "fresh empty_cloud",
      OF foo_path healthy_store [of JavaScript "Some foo_payload_text"]
         healthy_invoker [of JavaScript "Some foo_payload_text"] _ healthy_parse(1)]
  by (simp add: foo_payload_def)

section \<open>The increment\<close>

text \<open>
  C5. A call for a request (a JSON object) issues exactly one operation against the counter
  store, whatever happens afterwards: the update \<^verbatim>\<open>ADD hits :incr\<close> with
  \<^verbatim>\<open>:incr\<close> = 1, one atomic add and no read followed by a write, on the key whose
  \<^verbatim>\<open>path\<close> is the value of the request's \<^verbatim>\<open>path\<close> property as it is. The
  trace has that one command and no other for the store, and the state of the services after
  the call is the state one run of the store's client on that command left, passed through
  the one invocation when the increment was accepted: the store is run once, not twice and
  not skipped.
\<close>

theorem one_atomic_increment_per_call:
  "dynamo_sends (trace (snd (hitcounter_lambdaHandler src rt (JObj props) ctx w))) =
     dynamo_sends (trace w) @
       [\<lparr>TableName = HITS_TABLE_NAME rt,
         Key = (case src of
                  TypeScript \<Rightarrow>
                    JObj [(''path'', case map_of props ''path'' of None \<Rightarrow> JUndefined | Some v \<Rightarrow> v)]
                | JavaScript \<Rightarrow>
                    JObj [(''path'',
                      JObj [(''S'', case map_of props ''path'' of None \<Rightarrow> JUndefined | Some v \<Rightarrow> v)])]),
         UpdateExpression = ''ADD hits :incr'',
         ExpressionAttributeValues =
           (case src of
              TypeScript \<Rightarrow> JObj [('':incr'', JNum 1)]
            | JavaScript \<Rightarrow> JObj [('':incr'', JObj [(''N'', JStr ''1'')])])\<rparr>]
   \<and> incr_of (sdk_client src)
        (ExpressionAttributeValues
           (last (dynamo_sends (trace (snd (hitcounter_lambdaHandler src rt (JObj props) ctx w))))))
       = Some 1
   \<and> services (snd (hitcounter_lambdaHandler src rt (JObj props) ctx w)) =
       (case dynamo_send rt
               \<lparr>TableName = HITS_TABLE_NAME rt,
                Key = (case src of
                  TypeScript \<Rightarrow>
                    JObj [(''path'', case map_of props ''path'' of None \<Rightarrow> JUndefined | Some v \<Rightarrow> v)]
                | JavaScript \<Rightarrow>
                    JObj [(''path'',
                      JObj [(''S'', case map_of props ''path'' of None \<Rightarrow> JUndefined | Some v \<Rightarrow> v)])]),
                UpdateExpression = ''ADD hits :incr'',
                ExpressionAttributeValues =
                  (case src of
                     TypeScript \<Rightarrow> JObj [('':incr'', JNum 1)]
                   | JavaScript \<Rightarrow> JObj [('':incr'', JObj [(''N'', JStr ''1'')])])\<rparr>
               (services w) of
          (Inl e, s1) \<Rightarrow> s1
        | (Inr u, s1) \<Rightarrow>
            snd (lambda_send rt
                   \<lparr>FunctionName = DOWNSTREAM_FUNCTION_NAME rt,
                    Payload = JSON_stringify rt (JObj props)\<rparr> s1))"
proof -
  define p where "p = (case map_of props ''path'' of None \<Rightarrow> JUndefined | Some v \<Rightarrow> v)"
  have path: "event_path (JObj props) = Inr p"
    by (simp add: p_def)
  have sends: "dynamo_sends (trace (snd (hitcounter_lambdaHandler src rt (JObj props) ctx w))) =
      dynamo_sends (trace w) @ [store_command src rt p]"
    by (rule new_dynamo_sends [OF path])
  have incr: "incr_of (sdk_client src)
      (ExpressionAttributeValues
         (last (dynamo_sends (trace (snd (hitcounter_lambdaHandler src rt (JObj props) ctx w))))))
      = Some 1"
    by (simp add: sends store_command_incr)
  have state: "services (snd (hitcounter_lambdaHandler src rt (JObj props) ctx w)) =
      (case dynamo_send rt (store_command src rt p) (services w) of
         (Inl e, s1) \<Rightarrow> s1
       | (Inr u, s1) \<Rightarrow> snd (lambda_send rt (downstream_command src rt (JObj props)) s1))"
    by (rule services_after_call [OF path])
  from sends incr state show ?thesis
    unfolding store_command_eq downstream_command_eq p_def by simp
qed

text \<open>C5, on the JavaScript handler and the request \<^verbatim>\<open>{path: "/foo"}\<close>: one command
  in the trace, and the table, empty before, holds 1 for \<^verbatim>\<open>/foo\<close> after.\<close>

theorem one_atomic_increment_per_call_witness:
  "dynamo_sends (trace (snd (hitcounter_lambdaHandler JavaScript (healthy JavaScript (Some foo_payload_text))
      foo_request request_1 (fresh empty_cloud)))) =
     [\<lparr>TableName = Some ''Hits'',
       Key = JObj [(''path'', JObj [(''S'', JStr ''/foo'')])],
       UpdateExpression = ''ADD hits :incr'',
       ExpressionAttributeValues = JObj [('':incr'', JObj [(''N'', JStr ''1'')])]\<rparr>]
   \<and> Hits empty_cloud ''/foo'' = None
   \<and> Hits (services (snd (hitcounter_lambdaHandler JavaScript (healthy JavaScript (Some foo_payload_text))
      foo_request request_1 (fresh empty_cloud)))) = [''/foo'' \<mapsto> 1]"
  using one_atomic_increment_per_call [of JavaScript "healthy JavaScript (Some foo_payload_text)"
      "[(''path'', JStr ''/foo'')]" request_1 "fresh empty_cloud"]
    healthy_store [of JavaScript "Some foo_payload_text" empty_cloud,
      unfolded store_command_eq]
    healthy_invoker [of JavaScript "Some foo_payload_text"]
  by (simp add: foo_request_def fresh_def)
     (simp add: healthy_def example_runtime_def empty_cloud_def hits_of_def)



section \<open>Forwarding\<close>



section \<open>Counting\<close>

text \<open>What the counter store does with the command of a call, and what one call and a
  sequence of calls leave in the table when the downstream function does not write to it.\<close>

lemma store_counts:
  assumes "dynamo_send rt = counter_store (sdk_client src) name"
    and "HITS_TABLE_NAME rt = Some name"
    and "P \<noteq> []"
  shows "dynamo_send rt (store_command src rt (JStr P)) s =
           (Inr (), s\<lparr>Hits := (Hits s)(P \<mapsto> hits_of (Hits s) P + 1)\<rparr>)"
  using counter_store_command [OF assms(2), of src "JStr P" s] assms(1,3) by simp

lemma hits_of_update:
  "hits_of (t(P \<mapsto> n)) Q = (if Q = P then n else hits_of t Q)"
  by (simp add: hits_of_def)

lemma call_table:
  assumes "dynamo_send rt = counter_store (sdk_client src) name"
    and "HITS_TABLE_NAME rt = Some name"
    and quiet: "\<And>cmd s. Hits (snd (lambda_send rt cmd s)) = Hits s"
  shows "Hits (services (snd (hitcounter_lambdaHandler src rt event ctx w))) =
           (case event_path event of
              Inr (JStr P) \<Rightarrow>
                if P = [] then Hits (services w)
                else (Hits (services w))(P \<mapsto> hits_of (Hits (services w)) P + 1)
            | _ \<Rightarrow> Hits (services w))"
proof (cases "event_path event")
  case (Inl err)
  then show ?thesis by (simp add: null_event)
next
  case (Inr p)
  note store = counter_store_command [OF assms(2), of src p "services w", folded assms(1)]
  show ?thesis
  proof (rule handler_cases [OF Inr, where rt = rt and src = src and w = w and ctx = ctx])
    fix e s1
    assume "dynamo_send rt (store_command src rt p) (services w) = (Inl e, s1)"
      and "hitcounter_lambdaHandler src rt event ctx w =
         (Inl (CounterStoreError e),
          \<lparr>services = s1,
           trace = trace w @ instrumentation event ctx @ [DynamoSend (store_command src rt p)]\<rparr>)"
    with store Inr show ?thesis
      by (auto split: jsval.splits if_splits)
  next
    fix u s1 e s2
    assume "dynamo_send rt (store_command src rt p) (services w) = (Inr u, s1)"
      and invoke: "lambda_send rt (downstream_command src rt event) s1 = (Inl e, s2)"
      and "hitcounter_lambdaHandler src rt event ctx w =
         (Inl (DownstreamInvocationError e),
          \<lparr>services = s2,
           trace = trace w @ instrumentation event ctx @
             [DynamoSend (store_command src rt p), AddMetric ''hit'' Count 1,
              PublishStoredMetrics, LambdaSend (downstream_command src rt event)]\<rparr>)"
    with store Inr quiet [of "downstream_command src rt event" s1] show ?thesis
      by (auto split: jsval.splits if_splits)
  next
    fix u s1 resp s2
    assume "dynamo_send rt (store_command src rt p) (services w) = (Inr u, s1)"
      and invoke: "lambda_send rt (downstream_command src rt event) s1 = (Inr resp, s2)"
      and "hitcounter_lambdaHandler src rt event ctx w =
         ((case resp_Payload resp of
             Some bytes \<Rightarrow>
               (case JSON_parse rt bytes of
                  None \<Rightarrow> Inl MalformedDownstreamResponse
                | Some v \<Rightarrow> Inr v)
           | None \<Rightarrow>
               (case src of
                  TypeScript \<Rightarrow> Inr (JObj [])
                | JavaScript \<Rightarrow>
                    (case JSON_parse rt ''undefined'' of
                       None \<Rightarrow> Inl MalformedDownstreamResponse
                     | Some v \<Rightarrow> Inr v))),
          \<lparr>services = s2,
           trace = trace w @ instrumentation event ctx @
             [DynamoSend (store_command src rt p), AddMetric ''hit'' Count 1,
              PublishStoredMetrics, LambdaSend (downstream_command src rt event),
              LoggerInfo ''Downstream Response:'' (LogResponse resp)]\<rparr>)"
    with store Inr quiet [of "downstream_command src rt event" s1] show ?thesis
      by (auto split: jsval.splits if_splits)
  qed
qed

lemma call_never_decrements:
  assumes "dynamo_send rt = counter_store (sdk_client src) name"
    and "HITS_TABLE_NAME rt = Some name"
    and "\<And>cmd s. Hits (snd (lambda_send rt cmd s)) = Hits s"
  shows "hits_of (Hits (services w)) Q \<le>
           hits_of (Hits (services (snd (hitcounter_lambdaHandler src rt event ctx w)))) Q"
  by (simp add: call_table [OF assms] hits_of_update split: sum.splits jsval.splits)

lemma serve_never_decrements:
  assumes "dynamo_send rt = counter_store (sdk_client src) name"
    and "HITS_TABLE_NAME rt = Some name"
    and "\<And>cmd s. Hits (snd (lambda_send rt cmd s)) = Hits s"
  shows "hits_of (Hits (services w)) Q \<le>
           hits_of (Hits (services (serve (hitcounter_lambdaHandler src rt) calls w))) Q"
proof (induction calls arbitrary: w)
  case Nil
  show ?case by simp
next
  case (Cons call calls)
  obtain event ctx where call: "call = (event, ctx)" by (cases call)
  have "hits_of (Hits (services w)) Q \<le>
      hits_of (Hits (services (snd (hitcounter_lambdaHandler src rt event ctx w)))) Q"
    by (rule call_never_decrements [OF assms])
  also have "\<dots> \<le> hits_of (Hits (services
      (serve (hitcounter_lambdaHandler src rt) calls
         (snd (hitcounter_lambdaHandler src rt event ctx w))))) Q"
    by (rule Cons.IH)
  finally show ?case by (simp add: call)
qed

lemma serve_counts:
  assumes "dynamo_send rt = counter_store (sdk_client src) name"
    and "HITS_TABLE_NAME rt = Some name"
    and "\<And>cmd s. Hits (snd (lambda_send rt cmd s)) = Hits s"
    and "P \<noteq> []"
    and "\<forall>call \<in> set calls. event_path (fst call) = Inr (JStr P)"
  shows "hits_of (Hits (services (serve (hitcounter_lambdaHandler src rt) calls w))) Q =
           (if Q = P then hits_of (Hits (services w)) P + of_nat (length calls)
            else hits_of (Hits (services w)) Q)"
  using assms(5)
proof (induction calls arbitrary: w)
  case Nil
  show ?case by simp
next
  case (Cons call calls)
  obtain event ctx where call: "call = (event, ctx)" by (cases call)
  from Cons.prems have path: "event_path event = Inr (JStr P)"
    and rest: "\<forall>call \<in> set calls. event_path (fst call) = Inr (JStr P)"
    by (simp_all add: call)
  have step: "Hits (services (snd (hitcounter_lambdaHandler src rt event ctx w))) =
      (Hits (services w))(P \<mapsto> hits_of (Hits (services w)) P + 1)"
    by (simp add: call_table [OF assms(1-3)] path assms(4))
  show ?case
    by (simp add: call Cons.IH [OF rest] step hits_of_update)
qed

lemma call_counts_one:
  assumes "dynamo_send rt = counter_store (sdk_client src) name"
    and "HITS_TABLE_NAME rt = Some name"
    and "\<And>cmd s. Hits (snd (lambda_send rt cmd s)) = Hits s"
    and "Q \<noteq> []"
  shows "hits_of (Hits (services (snd (hitcounter_lambdaHandler src rt event ctx w)))) Q =
           hits_of (Hits (services w)) Q + (if event_path event = Inr (JStr Q) then 1 else 0)"
  using assms(4)
  by (auto simp: call_table [OF assms(1-3)] hits_of_update split: sum.splits jsval.splits)

lemma serve_counts_interleaved:
  assumes "dynamo_send rt = counter_store (sdk_client src) name"
    and "HITS_TABLE_NAME rt = Some name"
    and "\<And>cmd s. Hits (snd (lambda_send rt cmd s)) = Hits s"
    and "Q \<noteq> []"
  shows "hits_of (Hits (services (serve (hitcounter_lambdaHandler src rt) calls w))) Q =
           hits_of (Hits (services w)) Q +
             of_nat (length (filter (\<lambda>call. event_path (fst call) = Inr (JStr Q)) calls))"
proof (induction calls arbitrary: w)
  case Nil
  show ?case by simp
next
  case (Cons call calls)
  obtain event ctx where call: "call = (event, ctx)" by (cases call)
  show ?case
    by (simp add: call Cons.IH call_counts_one [OF assms])
qed

text \<open>
  C2. If the increment succeeds and the invocation is then rejected, the call fails with
  \<^verbatim>\<open>DownstreamInvocationError\<close> and the count of the request's path stays incremented:
  the call sends the store its one increment and nothing to undo it. (An invocation that
  resolves with \<^verbatim>\<open>FunctionError\<close> set has resolved; it is not a rejection.)
\<close>

theorem increment_survives_downstream_failure:
  assumes "event_path event = Inr (JStr P)" and "P \<noteq> []"
    and "dynamo_send rt = counter_store (sdk_client src) name"
    and "HITS_TABLE_NAME rt = Some name"
    and "lambda_send rt (downstream_command src rt event)
           (snd (dynamo_send rt (store_command src rt (JStr P)) (services w))) = (Inl e, s2)"
    and "Hits s2 = Hits (snd (dynamo_send rt (store_command src rt (JStr P)) (services w)))"
  shows "fst (hitcounter_lambdaHandler src rt event ctx w) = Inl (DownstreamInvocationError e)
     \<and> hits_of (Hits (services (snd (hitcounter_lambdaHandler src rt event ctx w)))) P =
         hits_of (Hits (services w)) P + 1
     \<and> dynamo_sends (trace (snd (hitcounter_lambdaHandler src rt event ctx w))) =
         dynamo_sends (trace w) @ [store_command src rt (JStr P)]"
proof -
  note store = store_counts [OF assms(3,4,2), of "services w"]
  from assms(5) have invoke: "lambda_send rt (downstream_command src rt event)
      ((services w)\<lparr>Hits := (Hits (services w))(P \<mapsto> hits_of (Hits (services w)) P + 1)\<rparr>)
      = (Inl e, s2)"
    by (simp add: store)
  from assms(6) have table: "Hits s2 = (Hits (services w))(P \<mapsto> hits_of (Hits (services w)) P + 1)"
    by (simp add: store)
  show ?thesis
    by (simp add: invoke_rejects [OF assms(1) store invoke] table hits_of_update
        dynamo_sends_append sends_instrumentation)
qed

text \<open>C2, on the request \<^verbatim>\<open>{path: "/foo"}\<close>, an empty table and a downstream
  function that cannot be reached: the call fails and the count of \<^verbatim>\<open>/foo\<close> is 1.\<close>

theorem increment_survives_downstream_failure_witness:
  "fst (hitcounter_lambdaHandler TypeScript (cut_off TypeScript) foo_request request_1
          (fresh empty_cloud)) = Inl (DownstreamInvocationError (SdkError ''ServiceException''))
   \<and> hits_of (Hits empty_cloud) ''/foo'' = 0
   \<and> hits_of (Hits (services (snd (hitcounter_lambdaHandler TypeScript (cut_off TypeScript)
          foo_request request_1 (fresh empty_cloud))))) ''/foo'' = 1"
proof -
  have store: "dynamo_send (cut_off TypeScript) = counter_store (sdk_client TypeScript) ''Hits''"
    and name: "HITS_TABLE_NAME (cut_off TypeScript) = Some ''Hits''"
    by (simp_all add: cut_off_def example_runtime_def)
  have invoke: "lambda_send (cut_off TypeScript) cmd s = (Inl (SdkError ''ServiceException''), s)"
    for cmd s
    by (simp add: cut_off_def example_runtime_def unreachable_def)
  have "''/foo'' \<noteq> []" by simp
  from increment_survives_downstream_failure
    [where ctx = request_1 and w = "fresh empty_cloud", OF foo_path this store name invoke refl]
  show ?thesis
    by (simp add: fresh_def empty_cloud_def hits_of_def)
qed


text \<open>
  C6. Calls of the handler with path \<open>P\<close>, each with its own event and context, raise the
  count of \<open>P\<close> by their number and leave the counts of the other paths alone; no sequence
  of calls, whatever the events, lowers or resets a count; and in any sequence of calls the
  count of a path grows by the number of calls for that path, whatever calls for other paths
  come in between. The downstream function need not succeed for this; it must not write to
  the table.
\<close>

theorem hits_counted:
  assumes "dynamo_send rt = counter_store (sdk_client src) name"
    and "HITS_TABLE_NAME rt = Some name"
    and "\<forall>cmd s. Hits (snd (lambda_send rt cmd s)) = Hits s"
    and "P \<noteq> []"
    and "\<forall>call \<in> set calls. event_path (fst call) = Inr (JStr P)"
  shows "hits_of (Hits (services (serve (hitcounter_lambdaHandler src rt) calls w))) P =
           hits_of (Hits (services w)) P + of_nat (length calls)
     \<and> (\<forall>Q. Q \<noteq> P \<longrightarrow>
           hits_of (Hits (services (serve (hitcounter_lambdaHandler src rt) calls w))) Q =
           hits_of (Hits (services w)) Q)
     \<and> (\<forall>any Q. hits_of (Hits (services w)) Q \<le>
           hits_of (Hits (services (serve (hitcounter_lambdaHandler src rt) any w))) Q)
     \<and> (\<forall>any Q. Q \<noteq> [] \<longrightarrow>
           hits_of (Hits (services (serve (hitcounter_lambdaHandler src rt) any w))) Q =
           hits_of (Hits (services w)) Q +
             of_nat (length (filter (\<lambda>call. event_path (fst call) = Inr (JStr Q)) any)))"
proof -
  from assms(3) have quiet: "\<And>cmd s. Hits (snd (lambda_send rt cmd s)) = Hits s"
    by simp
  note counts = serve_counts [OF assms(1,2) quiet assms(4,5)]
  have "hits_of (Hits (services (serve (hitcounter_lambdaHandler src rt) calls w))) P =
      hits_of (Hits (services w)) P + of_nat (length calls)"
    by (simp add: counts)
  moreover have "\<forall>Q. Q \<noteq> P \<longrightarrow>
      hits_of (Hits (services (serve (hitcounter_lambdaHandler src rt) calls w))) Q =
      hits_of (Hits (services w)) Q"
    by (simp add: counts)
  moreover have "\<forall>any Q. hits_of (Hits (services w)) Q \<le>
      hits_of (Hits (services (serve (hitcounter_lambdaHandler src rt) any w))) Q"
    by (simp add: serve_never_decrements [OF assms(1,2) quiet])
  moreover have "\<forall>any Q. Q \<noteq> [] \<longrightarrow>
      hits_of (Hits (services (serve (hitcounter_lambdaHandler src rt) any w))) Q =
      hits_of (Hits (services w)) Q +
        of_nat (length (filter (\<lambda>call. event_path (fst call) = Inr (JStr Q)) any))"
    by (simp add: serve_counts_interleaved [OF assms(1,2) quiet])
  ultimately show ?thesis by blast
qed

text \<open>C6, on three calls of the JavaScript handler for \<^verbatim>\<open>/foo\<close> on an empty
  table.\<close>

theorem hits_counted_witness:
  "hits_of (Hits (services (serve (hitcounter_lambdaHandler JavaScript (healthy JavaScript (Some foo_payload_text)))
      [(foo_request, request_1), (foo_request, request_1), (foo_request, request_1)]
      (fresh empty_cloud)))) ''/foo'' = 3"
proof -
  have store: "dynamo_send (healthy JavaScript (Some foo_payload_text)) =
      counter_store (sdk_client JavaScript) ''Hits''"
    and name: "HITS_TABLE_NAME (healthy JavaScript (Some foo_payload_text)) = Some ''Hits''"
    by (simp_all add: healthy_def example_runtime_def)
  have quiet: "\<forall>cmd s. Hits (snd (lambda_send (healthy JavaScript (Some foo_payload_text)) cmd s)) = Hits s"
    by (simp add: healthy_invoker)
  have calls: "\<forall>call \<in> set [(foo_request, request_1), (foo_request, request_1), (foo_request, request_1)].
      event_path (fst call) = Inr (JStr ''/foo'')"
    by (simp add: foo_path)
  have "''/foo'' \<noteq> []" by simp
  from hits_counted [where w = "fresh empty_cloud", OF store name quiet this calls]
  show ?thesis
    by (simp add: fresh_def empty_cloud_def hits_of_def)
qed


text \<open>
  C7. In a call whose increment is accepted, the invocation is made in the state the
  completed increment left, where the count of the path is already one higher; the state
  the call returns is the one the completed invocation left, the trace has the increment
  before the invocation, and what the call returns is made from the outcome of that
  invocation.
\<close>

theorem increment_before_invocation:
  assumes "event_path event = Inr (JStr P)" and "P \<noteq> []"
    and "dynamo_send rt = counter_store (sdk_client src) name"
    and "HITS_TABLE_NAME rt = Some name"
  shows "\<exists>s1 r2 s2.
      dynamo_send rt (store_command src rt (JStr P)) (services w) = (Inr (), s1)
    \<and> hits_of (Hits s1) P = hits_of (Hits (services w)) P + 1
    \<and> lambda_send rt (downstream_command src rt event) s1 = (r2, s2)
    \<and> services (snd (hitcounter_lambdaHandler src rt event ctx w)) = s2
    \<and> trace (snd (hitcounter_lambdaHandler src rt event ctx w)) =
        trace w @ instrumentation event ctx @
          [DynamoSend (store_command src rt (JStr P)), AddMetric ''hit'' Count 1,
           PublishStoredMetrics, LambdaSend (downstream_command src rt event)] @
          (case r2 of
             Inl e \<Rightarrow> []
           | Inr resp \<Rightarrow> [LoggerInfo ''Downstream Response:'' (LogResponse resp)])
    \<and> (\<forall>e. r2 = Inl e \<longrightarrow>
          fst (hitcounter_lambdaHandler src rt event ctx w) = Inl (DownstreamInvocationError e))
    \<and> (\<forall>resp bytes v. r2 = Inr resp \<and> resp_Payload resp = Some bytes \<and> JSON_parse rt bytes = Some v \<longrightarrow>
          fst (hitcounter_lambdaHandler src rt event ctx w) = Inr v)"
proof -
  define s1 where
    "s1 = (services w)\<lparr>Hits := (Hits (services w))(P \<mapsto> hits_of (Hits (services w)) P + 1)\<rparr>"
  have store: "dynamo_send rt (store_command src rt (JStr P)) (services w) = (Inr (), s1)"
    unfolding s1_def by (rule store_counts [OF assms(3,4,2)])
  have count: "hits_of (Hits s1) P = hits_of (Hits (services w)) P + 1"
    by (simp add: s1_def hits_of_update)
  obtain r2 s2 where invoke: "lambda_send rt (downstream_command src rt event) s1 = (r2, s2)"
    by (cases "lambda_send rt (downstream_command src rt event) s1")
  have "services (snd (hitcounter_lambdaHandler src rt event ctx w)) = s2
    \<and> trace (snd (hitcounter_lambdaHandler src rt event ctx w)) =
        trace w @ instrumentation event ctx @
          [DynamoSend (store_command src rt (JStr P)), AddMetric ''hit'' Count 1,
           PublishStoredMetrics, LambdaSend (downstream_command src rt event)] @
          (case r2 of
             Inl e \<Rightarrow> []
           | Inr resp \<Rightarrow> [LoggerInfo ''Downstream Response:'' (LogResponse resp)])
    \<and> (\<forall>e. r2 = Inl e \<longrightarrow>
          fst (hitcounter_lambdaHandler src rt event ctx w) = Inl (DownstreamInvocationError e))
    \<and> (\<forall>resp bytes v. r2 = Inr resp \<and> resp_Payload resp = Some bytes \<and> JSON_parse rt bytes = Some v \<longrightarrow>
          fst (hitcounter_lambdaHandler src rt event ctx w) = Inr v)"
  proof (cases r2)
    case (Inl e)
    from invoke_rejects [OF assms(1) store invoke [unfolded Inl], of ctx] Inl
    show ?thesis by simp
  next
    case (Inr resp)
    from invoke_resolves [OF assms(1) store invoke [unfolded Inr], of ctx] Inr
    show ?thesis by simp
  qed
  with store count invoke show ?thesis by blast
qed

text \<open>C7, with a downstream function that answers with the count it finds for
  \<^verbatim>\<open>/foo\<close>: on an empty table the call returns 1.\<close>

theorem increment_before_invocation_witness:
  "hits_of (Hits empty_cloud) ''/foo'' = 0
   \<and> fst (hitcounter_lambdaHandler TypeScript observed foo_request request_1 (fresh empty_cloud))
       = Inr (JNum 1)"
proof -
  have store: "dynamo_send observed = counter_store (sdk_client TypeScript) ''Hits''"
    and name: "HITS_TABLE_NAME observed = Some ''Hits''"
    by (simp_all add: observed_def example_runtime_def)
  have "''/foo'' \<noteq> []" by simp
  from increment_before_invocation
    [where ctx = request_1 and w = "fresh empty_cloud", OF foo_path this store name]
  obtain s1 r2 s2 where
    count: "hits_of (Hits s1) ''/foo'' = hits_of (Hits (services (fresh empty_cloud))) ''/foo'' + 1"
    and invoke: "lambda_send observed (downstream_command TypeScript observed foo_request) s1 = (r2, s2)"
    and result: "\<forall>resp bytes v. r2 = Inr resp \<and> resp_Payload resp = Some bytes
        \<and> JSON_parse observed bytes = Some v \<longrightarrow>
          fst (hitcounter_lambdaHandler TypeScript observed foo_request request_1 (fresh empty_cloud))
            = Inr v"
    by blast
  have zero: "hits_of (Hits empty_cloud) ''/foo'' = 0"
    by (simp add: empty_cloud_def hits_of_def)
  with count have one: "hits_of (Hits s1) ''/foo'' = 1"
    by (simp add: fresh_def)
  from invoke have "r2 = Inr \<lparr>StatusCode = Some 200, FunctionError = None, resp_Payload = Some ''1''\<rparr>"
    by (simp add: observed_def example_runtime_def reports_count_def one)
  moreover have "JSON_parse observed ''1'' = Some (JNum 1)"
    by (simp add: observed_def example_runtime_def example_parse_def foo_payload_text_def
        foo_request_text_def)
  ultimately show ?thesis
    using result zero by simp
qed


section \<open>The hello function\<close>

lemma hello_eq:
  "hello_lambdaHandler src rt event ctx w =
     (case event_path event of
        Inl err \<Rightarrow> (Inl err, incoming event ctx w)
      | Inr p \<Rightarrow>
          (case substitution rt p of
             None \<Rightarrow> (Inl TypeError, incoming event ctx w)
           | Some s \<Rightarrow> (Inr (hello_response s), incoming event ctx w)))"
  by (cases src)
     (simp_all add: hello_lambdaHandler_def hello_ts_lambdaHandler_def hello_js_lambdaHandler_def
        Let_def)

text \<open>
  C10, as stated, has the hello function answer every event. On the event \<^verbatim>\<open>null\<close>
  reading \<^verbatim>\<open>event.path\<close> throws and there is no response.
\<close>

theorem hello_null_event_counterexample:
  "fst (hello_ts_lambdaHandler (healthy TypeScript None) JNull request_1 (fresh empty_cloud))
     = Inl TypeError
   \<and> fst (hello_js_lambdaHandler (healthy JavaScript None) JNull request_1 (fresh empty_cloud))
     = Inl TypeError"
  by (simp add: hello_ts_lambdaHandler_def hello_js_lambdaHandler_def Let_def)

text \<open>
  C10, amended. For every event other than \<^verbatim>\<open>null\<close> and \<^verbatim>\<open>undefined\<close> whose
  \<^verbatim>\<open>path\<close> converts to a string (a string is itself, an absent path reads
  \<^verbatim>\<open>undefined\<close>), the hello function returns status code 200, the header
  \<^verbatim>\<open>Content-Type: text/plain\<close> and the body \<^verbatim>\<open>Hello, World! You've hit "<path>".\<close>
  with a line feed; whenever it returns at all, that is the shape of what it returns, so it
  never returns another status code; on \<^verbatim>\<open>null\<close> it throws a \<^verbatim>\<open>TypeError\<close>.
\<close>

theorem hello_responds:
  "(\<forall>p s. event_path event = Inr p \<and> substitution rt p = Some s \<longrightarrow>
      fst (hello_lambdaHandler src rt event ctx w) =
        Inr (JObj [(''statusCode'', JNum 200),
                   (''headers'', JObj [(''Content-Type'', JStr ''text/plain'')]),
                   (''body'', JStr (''Hello, World! You've hit '' @ [CHR 0x22] @ s @
                                     [CHR 0x22, CHR ''.'', CHR 0x0A]))]))
   \<and> (\<forall>props s. event = JObj props \<and> map_of props ''path'' = Some (JStr s) \<longrightarrow>
        fst (hello_lambdaHandler src rt event ctx w) = Inr (hello_response s))
   \<and> (\<forall>r. fst (hello_lambdaHandler src rt event ctx w) = Inr r \<longrightarrow>
        (\<exists>s. r = JObj [(''statusCode'', JNum 200),
                        (''headers'', JObj [(''Content-Type'', JStr ''text/plain'')]),
                        (''body'', JStr (hello_body s))]))
   \<and> (event = JNull \<longrightarrow> fst (hello_lambdaHandler src rt event ctx w) = Inl TypeError)"
  by (auto simp: hello_eq hello_response_def hello_body_def substitution_def
      split: sum.splits option.splits)

text \<open>C10, amended, on the request \<^verbatim>\<open>{path: "/foo"}\<close> and on the empty request.\<close>

theorem hello_responds_witness:
  "fst (hello_lambdaHandler TypeScript (healthy TypeScript None) foo_request request_1
          (fresh empty_cloud)) = Inr (JObj [(''statusCode'', JNum 200),
                   (''headers'', JObj [(''Content-Type'', JStr ''text/plain'')]),
                   (''body'', JStr (hello_body ''/foo''))])
   \<and> fst (hello_lambdaHandler JavaScript (healthy JavaScript None) (JObj []) request_1
          (fresh empty_cloud)) = Inr (JObj [(''statusCode'', JNum 200),
                   (''headers'', JObj [(''Content-Type'', JStr ''text/plain'')]),
                   (''body'', JStr (hello_body ''undefined''))])"
  using hello_responds [of foo_request "healthy TypeScript None" TypeScript request_1 "fresh empty_cloud"]
    hello_responds [of "JObj []" "healthy JavaScript None" JavaScript request_1 "fresh empty_cloud"]
  by (simp add: foo_request_def substitution_def hello_body_def)

end
